theory Spec2Isabelle
  imports Main "HOL-Library.Multiset"
begin

section \<open>Data model (the Prisma schema)\<close>

text \<open>
  The two tables the handlers use. Timestamps (\<open>DateTime\<close>) are milliseconds since the
  epoch, as a JavaScript \<open>Date\<close> holds them. An id (\<open>@id @default(cuid())\<close>) is an opaque
  value that the store generates and never repeats: here the next value of a counter kept in
  the store. A nullable column (\<open>String?\<close>, \<open>DateTime?\<close>) is an \<open>option\<close>.
  The field \<open>id\<close> of both models is suffixed with the model's name, and \<open>createdAt\<close>
  of a click likewise, since a record field is a constant of the theory.
\<close>

record link =
  idLink :: nat
  originalUrl :: string
  shortCode :: string
  customAlias :: "string option"
  title :: "string option"
  description :: "string option"
  createdAt :: int
  updatedAt :: int
  expiresAt :: "int option"
  isActive :: bool
  totalClicks :: int

record click =
  idClick :: nat
  linkId :: nat
  ip :: "string option"
  userAgent :: "string option"
  referer :: "string option"
  country :: "string option"
  city :: "string option"
  device :: "string option"
  browser :: "string option"
  os :: "string option"
  createdAtClick :: int

record store =
  links :: "link list"
  clicks :: "click list"
  nextId :: nat

definition emptyStore :: store where
  "emptyStore = \<lparr>links = [], clicks = [], nextId = 0\<rparr>"

section \<open>What the platform supplies\<close>

text \<open>
  The handlers call into the JavaScript runtime and the schema library. Their code is not
  part of the repository, so what they compute is a parameter of every handler:
  \<^item> \<open>urlRest\<close>: the states of the URL parser behind \<open>new URL(s)\<close> that follow the
    scheme (the scheme itself is \<open>hasScheme\<close> below);
  \<^item> \<open>zodUrlExtra\<close>: what \<open>z.string().url()\<close> checks beyond \<open>new URL(s)\<close> not
    throwing (nothing in version 3 of the library);
  \<^item> \<open>zodDatetime\<close>: \<open>z.string().datetime()\<close>;
  \<^item> \<open>dateOf\<close>: \<open>new Date(s).getTime()\<close>;
  \<^item> \<open>clicksByDay\<close>: the raw SQL query of the overview, run by the database engine.
\<close>

record platform =
  urlRest :: "string \<Rightarrow> bool"
  zodUrlExtra :: "string \<Rightarrow> bool"
  zodDatetime :: "string \<Rightarrow> bool"
  dateOf :: "string \<Rightarrow> int"
  clicksByDay :: "click list \<Rightarrow> int \<Rightarrow> (string \<times> nat) list"

subsection \<open>The scheme of a URL\<close>

text \<open>
  \<open>new URL(s)\<close> is called without a base. The parser strips leading C0 controls and
  spaces, drops tabs and newlines, and then reads the scheme: a letter, followed by letters,
  digits, \<open>+\<close>, \<open>-\<close> or \<open>.\<close>, up to a colon. Any other character, or the end of the input,
  before the colon leaves the input without a scheme, and without a base that is a failure:
  the constructor throws.
\<close>

definition isAlpha :: "char \<Rightarrow> bool" where
  "isAlpha c = (let n = (of_char c :: nat) in (65 \<le> n \<and> n \<le> 90) \<or> (97 \<le> n \<and> n \<le> 122))"

definition isDigit :: "char \<Rightarrow> bool" where
  "isDigit c = (let n = (of_char c :: nat) in 48 \<le> n \<and> n \<le> 57)"

fun schemeState :: "string \<Rightarrow> bool" where
  "schemeState [] = False"
| "schemeState (c # cs) =
     (if isAlpha c \<or> isDigit c \<or> c = CHR ''+'' \<or> c = CHR ''-'' \<or> c = CHR ''.''
      then schemeState cs
      else c = CHR '':'')"

definition schemeStart :: "string \<Rightarrow> bool" where
  "schemeStart s = (case s of [] \<Rightarrow> False | c # cs \<Rightarrow> isAlpha c \<and> schemeState cs)"

definition hasScheme :: "string \<Rightarrow> bool" where
  "hasScheme s =
     schemeStart (filter (\<lambda>c. (of_char c :: nat) \<notin> {9, 10, 13})
                    (dropWhile (\<lambda>c. (of_char c :: nat) \<le> 32) s))"

section \<open>src/lib/utils.ts\<close>

text \<open>\<open>isValidUrl\<close>: \<open>new URL(string)\<close> returns (true) or throws (false).\<close>

definition isValidUrl :: "platform \<Rightarrow> string \<Rightarrow> bool" where
  "isValidUrl P s = (hasScheme s \<and> urlRest P s)"

definition startsWith :: "string \<Rightarrow> string \<Rightarrow> bool" where
  "startsWith s p = (take (length p) s = p)"

definition formatUrl :: "string \<Rightarrow> string" where
  "formatUrl url =
     (if \<not> startsWith url ''http://'' \<and> \<not> startsWith url ''https://''
      then ''https://'' @ url
      else url)"

section \<open>The store operations the handlers call\<close>

text \<open>
  \<open>prisma.link.create\<close>: the row gets a fresh id, the schema's defaults
  (\<open>createdAt = now()\<close>, \<open>updatedAt\<close>, \<open>isActive = true\<close>, \<open>totalClicks = 0\<close>) and is
  appended, unless one of the two \<open>@unique\<close> columns would repeat: then the call throws
  and nothing is written. A null \<open>customAlias\<close> never violates its constraint.
\<close>

record linkData =
  originalUrl_d :: string
  shortCode_d :: string
  customAlias_d :: "string option"
  title_d :: "string option"
  description_d :: "string option"
  expiresAt_d :: "int option"

datatype storeError = UniqueViolation

definition newLink :: "nat \<Rightarrow> int \<Rightarrow> linkData \<Rightarrow> link" where
  "newLink i now d =
     \<lparr>idLink = i, originalUrl = originalUrl_d d, shortCode = shortCode_d d,
      customAlias = customAlias_d d, title = title_d d, description = description_d d,
      createdAt = now, updatedAt = now, expiresAt = expiresAt_d d,
      isActive = True, totalClicks = 0\<rparr>"

definition violatesUnique :: "link list \<Rightarrow> linkData \<Rightarrow> bool" where
  "violatesUnique ls d =
     (list_ex (\<lambda>l. shortCode l = shortCode_d d) ls \<or>
      (customAlias_d d \<noteq> None \<and> list_ex (\<lambda>l. customAlias l = customAlias_d d) ls))"

definition linkCreate :: "store \<Rightarrow> int \<Rightarrow> linkData \<Rightarrow> storeError + (store \<times> link)" where
  "linkCreate s now d =
     (if violatesUnique (links s) d then Inl UniqueViolation
      else let l = newLink (nextId s) now d
           in Inr (s\<lparr>links := links s @ [l], nextId := Suc (nextId s)\<rparr>, l))"

text \<open>\<open>prisma.link.findUnique({ where: { customAlias } })\<close>\<close>

definition findUniqueAlias :: "store \<Rightarrow> string \<Rightarrow> link option" where
  "findUniqueAlias s a = find (\<lambda>l. customAlias l = Some a) (links s)"

text \<open>\<open>prisma.link.findUnique({ where: { id } })\<close>\<close>

definition findUniqueId :: "store \<Rightarrow> nat \<Rightarrow> link option" where
  "findUniqueId s i = find (\<lambda>l. idLink l = i) (links s)"

text \<open>
  \<open>prisma.link.findFirst({ where: { OR: [{ shortCode }, { customAlias: shortCode }],
  isActive: true } })\<close>: the first row, in the order of the table, that matches.
\<close>

definition matchesCode :: "string \<Rightarrow> link \<Rightarrow> bool" where
  "matchesCode code l = ((shortCode l = code \<or> customAlias l = Some code) \<and> isActive l)"

definition findFirstActive :: "store \<Rightarrow> string \<Rightarrow> link option" where
  "findFirstActive s code = find (matchesCode code) (links s)"

text \<open>
  \<open>prisma.click.create({ data: { linkId, ip, userAgent, referer } })\<close>: the columns not
  given stay null; the id is fresh and \<open>createdAt\<close> is the time of the call.
\<close>

definition clickCreate ::
  "store \<Rightarrow> int \<Rightarrow> nat \<Rightarrow> string option \<Rightarrow> string option \<Rightarrow> string option \<Rightarrow> store" where
  "clickCreate s now lid ipv ua rf =
     s\<lparr>clicks := clicks s @
          [\<lparr>idClick = nextId s, linkId = lid, ip = ipv, userAgent = ua, referer = rf,
            country = None, city = None, device = None, browser = None, os = None,
            createdAtClick = now\<rparr>],
       nextId := Suc (nextId s)\<rparr>"

text \<open>
  \<open>prisma.link.update({ where: { id }, data: { totalClicks: { increment: 1 } } })\<close>:
  the rows with that id get the counter incremented, and \<open>@updatedAt\<close> sets
  \<open>updatedAt\<close> to the time of the call.
\<close>

definition bump :: "int \<Rightarrow> link \<Rightarrow> link" where
  "bump now l = l\<lparr>totalClicks := totalClicks l + 1, updatedAt := now\<rparr>"

definition linkIncrement :: "store \<Rightarrow> int \<Rightarrow> nat \<Rightarrow> store" where
  "linkIncrement s now i =
     s\<lparr>links := map (\<lambda>l. if idLink l = i then bump now l else l) (links s)\<rparr>"

section \<open>Requests and responses\<close>

record createLinkRequest =
  originalUrl_rq :: string
  customAlias_rq :: "string option"
  title_rq :: "string option"
  description_rq :: "string option"
  expiresAt_rq :: "string option"

record redirectRequest =
  code_rq :: string
  ip_rq :: "string option"
  userAgent_rq :: "string option"
  referer_rq :: "string option"

record pagination =
  page_p :: int
  limit_p :: int
  total_p :: int
  pages_p :: int

record topLink =
  id_t :: nat
  originalUrl_t :: string
  shortCode_t :: string
  totalClicks_t :: int
  title_t :: "string option"

record analytics =
  totalLinks_a :: nat
  totalClicks_a :: nat
  recentClicks_a :: nat
  topLinks_a :: "topLink list"
  clicksOverTime_a :: "(string \<times> nat) list"

datatype body =
    ErrorMsg string
  | LinkJson link
  | LinksJson "(link \<times> nat) list" pagination
  | LinkDetailJson link "click list"
  | AnalyticsJson analytics

datatype response = Json nat body | Redirect nat string

fun status :: "response \<Rightarrow> nat" where
  "status (Json n b) = n"
| "status (Redirect n u) = n"

section \<open>POST /api/links\<close>

text \<open>
  \<open>createLinkSchema.parse(req.body)\<close> for a body whose fields have the types of
  \<open>CreateLinkRequest\<close>: \<open>originalUrl\<close> must pass \<open>z.string().url()\<close>, which
  needs \<open>new URL\<close> to accept it, and \<open>expiresAt\<close>, when present, must pass
  \<open>z.string().datetime()\<close>. The other three fields are \<open>z.string().optional()\<close>:
  any string passes.
\<close>

definition zodUrl :: "platform \<Rightarrow> string \<Rightarrow> bool" where
  "zodUrl P s = (isValidUrl P s \<and> zodUrlExtra P s)"

definition createLinkSchema :: "platform \<Rightarrow> createLinkRequest \<Rightarrow> bool" where
  "createLinkSchema P b =
     (zodUrl P (originalUrl_rq b) \<and>
      (case expiresAt_rq b of None \<Rightarrow> True | Some d \<Rightarrow> zodDatetime P d))"

text \<open>A string or \<open>undefined\<close> used as a condition: \<open>undefined\<close> and \<open>""\<close> are falsy.\<close>

definition truthy :: "string option \<Rightarrow> bool" where
  "truthy a = (case a of None \<Rightarrow> False | Some s \<Rightarrow> s \<noteq> [])"

text \<open>\<open>expiresAt ? new Date(expiresAt) : undefined\<close>\<close>

definition toDate :: "platform \<Rightarrow> string option \<Rightarrow> int option" where
  "toDate P e = (case e of None \<Rightarrow> None | Some d \<Rightarrow> if d \<noteq> [] then Some (dateOf P d) else None)"

text \<open>
  The handler, with the time of the request and the string that \<open>nanoid(8)\<close> returns
  when it is called (it is called only when \<open>customAlias\<close> is falsy). Every exit of the
  source is a branch: the \<open>ZodError\<close> caught (400), the invalid formatted URL (400), the
  alias found (400), the exception of \<open>prisma.link.create\<close> caught by the last line of
  the \<open>catch\<close> block (500), and 201 with the row.
\<close>

definition createLink ::
  "platform \<Rightarrow> int \<Rightarrow> string \<Rightarrow> store \<Rightarrow> createLinkRequest \<Rightarrow> store \<times> response" where
  "createLink P now nano s b =
     (if \<not> createLinkSchema P b then (s, Json 400 (ErrorMsg ''Invalid input data''))
      else
        let formattedUrl = formatUrl (originalUrl_rq b) in
        if \<not> isValidUrl P formattedUrl then (s, Json 400 (ErrorMsg ''Invalid URL''))
        else
          let code = (case customAlias_rq b of
                        None \<Rightarrow> nano
                      | Some a \<Rightarrow> if a \<noteq> [] then a else nano) in
          if truthy (customAlias_rq b) \<and>
             (case customAlias_rq b of None \<Rightarrow> False
              | Some a \<Rightarrow> findUniqueAlias s a \<noteq> None)
          then (s, Json 400 (ErrorMsg ''Custom alias already exists''))
          else
            (case linkCreate s now
                    \<lparr>originalUrl_d = formattedUrl, shortCode_d = code,
                     customAlias_d = customAlias_rq b, title_d = title_rq b,
                     description_d = description_rq b,
                     expiresAt_d = toDate P (expiresAt_rq b)\<rparr> of
               Inl e \<Rightarrow> (s, Json 500 (ErrorMsg ''Internal server error''))
             | Inr (s', l) \<Rightarrow> (s', Json 201 (LinkJson l))))"

section \<open>GET /s/:shortCode\<close>

text \<open>
  The handler at time \<open>now\<close>. \<open>link.expiresAt && new Date() > link.expiresAt\<close> is
  true when the column is not null and strictly before \<open>now\<close>. The two writes of
  \<open>Promise.all\<close> touch different tables; \<open>res.redirect\<close> answers 302.
\<close>

definition expired :: "int \<Rightarrow> link \<Rightarrow> bool" where
  "expired now l = (case expiresAt l of None \<Rightarrow> False | Some e \<Rightarrow> now > e)"

definition redirect :: "int \<Rightarrow> store \<Rightarrow> redirectRequest \<Rightarrow> store \<times> response" where
  "redirect now s rq =
     (case findFirstActive s (code_rq rq) of
        None \<Rightarrow> (s, Json 404 (ErrorMsg ''Link not found''))
      | Some l \<Rightarrow>
          if expired now l then (s, Json 410 (ErrorMsg ''Link has expired''))
          else
            (linkIncrement
               (clickCreate s now (idLink l) (ip_rq rq) (userAgent_rq rq) (referer_rq rq))
               now (idLink l),
             Redirect 302 (originalUrl l)))"

section \<open>GET /api/links\<close>

text \<open>
  A JavaScript number as far as the handler can meet one: \<open>NaN\<close>, an integer below
  \<open>2^53\<close> in absolute value, which a double holds exactly, or \<open>Unsafe\<close>: a value at or
  beyond \<open>2^53\<close>, which a double rounds (or \<open>Infinity\<close>). What the code computes from
  an \<open>Unsafe\<close> number is not followed.
\<close>

datatype jsnum = NaN | Num int | Unsafe

text \<open>
  \<open>parseInt(s)\<close> on a query parameter (\<open>None\<close> is a parameter that is absent): leading
  white space is skipped, then a sign, then a \<open>0x\<close> prefix selects base 16, and the longest
  run of digits is the value; no digit gives \<open>NaN\<close>. A character is a code unit below 256.
\<close>

definition isSpace :: "char \<Rightarrow> bool" where
  "isSpace c = ((of_char c :: nat) \<in> {9, 10, 11, 12, 13, 32, 160})"

definition digitVal :: "char \<Rightarrow> nat option" where
  "digitVal c =
     (let n = (of_char c :: nat) in
      if 48 \<le> n \<and> n \<le> 57 then Some (n - 48)
      else if 97 \<le> n \<and> n \<le> 122 then Some (n - 87)
      else if 65 \<le> n \<and> n \<le> 90 then Some (n - 55)
      else None)"

definition isRadixDigit :: "nat \<Rightarrow> char \<Rightarrow> bool" where
  "isRadixDigit r c = (case digitVal c of None \<Rightarrow> False | Some d \<Rightarrow> d < r)"

definition digitsValue :: "nat \<Rightarrow> string \<Rightarrow> nat" where
  "digitsValue r ds = foldl (\<lambda>acc c. acc * r + the (digitVal c)) 0 ds"

definition parseInt :: "string option \<Rightarrow> jsnum" where
  "parseInt q =
     (case q of
        None \<Rightarrow> NaN
      | Some s \<Rightarrow>
          let s1 = dropWhile isSpace s;
              neg = (s1 \<noteq> [] \<and> hd s1 = CHR ''-'');
              s2 = (if s1 \<noteq> [] \<and> (hd s1 = CHR ''-'' \<or> hd s1 = CHR ''+'') then tl s1 else s1);
              hex = (startsWith s2 ''0x'' \<or> startsWith s2 ''0X'');
              r = (if hex then 16 else 10);
              s3 = (if hex then drop 2 s2 else s2);
              ds = takeWhile (isRadixDigit r) s3
          in if ds = [] then NaN
             else if 2 ^ 53 \<le> digitsValue r ds then Unsafe
             else Num (if neg then - int (digitsValue r ds) else int (digitsValue r ds)))"

text \<open>\<open>parseInt(x) || d\<close>: \<open>NaN\<close> and \<open>0\<close> are falsy, every other number is kept.\<close>

definition orDefault :: "jsnum \<Rightarrow> int \<Rightarrow> jsnum" where
  "orDefault v d =
     (case v of NaN \<Rightarrow> Num d | Num n \<Rightarrow> if n = 0 then Num d else Num n | Unsafe \<Rightarrow> Unsafe)"

text \<open>
  \<open>orderBy: { createdAt: 'desc' }\<close>, rows of equal time in the order of the table, and
  the opposite order, in which the engine reads the table for a negative \<open>take\<close>.
\<close>

definition byCreatedDesc :: "link list \<Rightarrow> link list" where
  "byCreatedDesc ls = sort_key (\<lambda>l. - createdAt l) ls"

definition byCreatedAsc :: "link list \<Rightarrow> link list" where
  "byCreatedAsc ls = sort_key createdAt ls"

text \<open>
  \<open>prisma.link.findMany({ skip, take, orderBy: { createdAt: 'desc' } })\<close>. A negative
  \<open>skip\<close> is rejected: the call throws. A negative \<open>take\<close> reads the table in the
  opposite order, skips and takes there, and returns those rows reversed. The engine is
  followed for arguments in the signed 32-bit range only: beyond it the answer depends on
  the width of the engine's integers, and the call is \<open>OutOfRange\<close>.
\<close>

datatype 'a call = Returns 'a | Throws | OutOfRange

definition int32 :: "int \<Rightarrow> bool" where
  "int32 n = (- (2 ^ 31) \<le> n \<and> n < 2 ^ 31)"

definition findManyLinks :: "int \<Rightarrow> int \<Rightarrow> link list \<Rightarrow> link list call" where
  "findManyLinks skip tk ls =
     (if \<not> int32 skip \<or> \<not> int32 tk then OutOfRange
      else if skip < 0 then Throws
      else if 0 \<le> tk then Returns (take (nat tk) (drop (nat skip) (byCreatedDesc ls)))
      else Returns (rev (take (nat (- tk)) (drop (nat skip) (byCreatedAsc ls)))))"

text \<open>
  \<open>Math.ceil(total / limit)\<close>; \<open>limit\<close> is never 0 here, and for a \<open>limit\<close> in the
  32-bit range the rounding of the quotient to a double does not cross an integer.
\<close>

definition ceilDiv :: "int \<Rightarrow> int \<Rightarrow> int" where
  "ceilDiv a b = - ((- a) div b)"

definition countClicks :: "store \<Rightarrow> nat \<Rightarrow> nat" where
  "countClicks s i = length (filter (\<lambda>c. linkId c = i) (clicks s))"

text \<open>
  The handler. The result is \<open>None\<close> where the request leaves the range in which the
  model follows the code: a parameter that parses to an \<open>Unsafe\<close> number, or a \<open>skip\<close>
  or \<open>take\<close> outside the 32-bit range (a \<open>skip\<close> within it is an exact product).
  The exception of \<open>findMany\<close> is caught and answered 500.
\<close>

definition listLinks :: "store \<Rightarrow> string option \<Rightarrow> string option \<Rightarrow> response option" where
  "listLinks s pageQ limitQ =
     (case (orDefault (parseInt pageQ) 1, orDefault (parseInt limitQ) 10) of
        (Num page, Num limit) \<Rightarrow>
          (let skip = (page - 1) * limit;
               total = int (length (links s))
           in case findManyLinks skip limit (links s) of
                OutOfRange \<Rightarrow> None
              | Throws \<Rightarrow> Some (Json 500 (ErrorMsg ''Internal server error''))
              | Returns ls \<Rightarrow>
                  Some (Json 200 (LinksJson (map (\<lambda>l. (l, countClicks s (idLink l))) ls)
                          \<lparr>page_p = page, limit_p = limit, total_p = total,
                           pages_p = ceilDiv total limit\<rparr>)))
      | _ \<Rightarrow> None)"

section \<open>GET /api/links/:id\<close>

definition byCreatedDescClick :: "click list \<Rightarrow> click list" where
  "byCreatedDescClick cs = sort_key (\<lambda>c. - createdAtClick c) cs"

definition getLink :: "store \<Rightarrow> nat \<Rightarrow> response" where
  "getLink s i =
     (case findUniqueId s i of
        None \<Rightarrow> Json 404 (ErrorMsg ''Link not found'')
      | Some l \<Rightarrow>
          Json 200 (LinkDetailJson l
            (take 100 (byCreatedDescClick (filter (\<lambda>c. linkId c = idLink l) (clicks s))))))"

section \<open>GET /api/analytics/overview\<close>

definition selectTop :: "link \<Rightarrow> topLink" where
  "selectTop l =
     \<lparr>id_t = idLink l, originalUrl_t = originalUrl l, shortCode_t = shortCode l,
      totalClicks_t = totalClicks l, title_t = title l\<rparr>"

definition overview :: "platform \<Rightarrow> int \<Rightarrow> store \<Rightarrow> analytics" where
  "overview P now s =
     \<lparr>totalLinks_a = length (links s),
      totalClicks_a = length (clicks s),
      recentClicks_a =
        length (filter (\<lambda>c. createdAtClick c \<ge> now - 7 * 24 * 60 * 60 * 1000) (clicks s)),
      topLinks_a = map selectTop (take 5 (sort_key (\<lambda>l. - totalClicks l) (links s))),
      clicksOverTime_a = clicksByDay P (clicks s) now\<rparr>"

definition overviewHandler :: "platform \<Rightarrow> int \<Rightarrow> store \<Rightarrow> response" where
  "overviewHandler P now s = Json 200 (AnalyticsJson (overview P now s))"

section \<open>The form of the client (LinkShortener.validateForm)\<close>

text \<open>
  The check of the alias in the form: \<open>customAlias && customAlias.length < 3\<close> sets the
  error of the field, and a form with an error is not submitted.
\<close>

definition aliasFormError :: "string \<Rightarrow> string option" where
  "aliasFormError a =
     (if a \<noteq> [] \<and> length a < 3 then Some ''Custom alias must be at least 3 characters''
      else None)"

section \<open>The states the handlers reach\<close>

text \<open>
  One step is one request handled. The three reading handlers leave the store as it is,
  so their steps are the identity on the store.
\<close>

inductive reachable :: "platform \<Rightarrow> store \<Rightarrow> bool" for P :: platform where
  r_empty: "reachable P emptyStore"
| r_create: "reachable P s \<Longrightarrow> reachable P (fst (createLink P now nano s b))"
| r_redirect: "reachable P s \<Longrightarrow> reachable P (fst (redirect now s rq))"
| r_read: "reachable P s \<Longrightarrow> reachable P s"

text \<open>
  What every reachable store satisfies: the ids of the links are distinct and below the
  counter, and the counters of the links add up to the number of click rows.
\<close>

definition storeInv :: "store \<Rightarrow> bool" where
  "storeInv s =
     (distinct (map idLink (links s)) \<and>
      (\<forall>l \<in> set (links s). idLink l < nextId s) \<and>
      sum_list (map totalClicks (links s)) = int (length (clicks s)))"

section \<open>Example data\<close>

text \<open>
  A platform that accepts whatever the scheme check lets through, a store with one plain
  link and one link with an alias that expired at time 2000, and three redirect requests.
\<close>

definition platform0 :: platform where
  "platform0 = \<lparr>urlRest = (\<lambda>s. True), zodUrlExtra = (\<lambda>s. True), zodDatetime = (\<lambda>s. True),
     dateOf = (\<lambda>s. 1577836800000), clicksByDay = (\<lambda>cs n. [])\<rparr>"

definition link1 :: link where
  "link1 = \<lparr>idLink = 0, originalUrl = ''https://example.com/a/b'', shortCode = ''Ab3dE9xQ'',
     customAlias = None, title = None, description = None, createdAt = 1000,
     updatedAt = 1000, expiresAt = None, isActive = True, totalClicks = 0\<rparr>"

definition link2 :: link where
  "link2 = \<lparr>idLink = 1, originalUrl = ''https://example.org/sale'', shortCode = ''sale'',
     customAlias = Some ''sale'', title = None, description = None, createdAt = 1500,
     updatedAt = 1500, expiresAt = Some 2000, isActive = True, totalClicks = 0\<rparr>"

definition store1 :: store where
  "store1 = \<lparr>links = [link1, link2], clicks = [], nextId = 2\<rparr>"

definition rqCode :: redirectRequest where
  "rqCode = \<lparr>code_rq = ''Ab3dE9xQ'', ip_rq = Some ''203.0.113.7'',
     userAgent_rq = Some ''curl/8.0'', referer_rq = None\<rparr>"

definition rqSale :: redirectRequest where
  "rqSale = \<lparr>code_rq = ''sale'', ip_rq = None, userAgent_rq = None, referer_rq = None\<rparr>"

definition rqNone :: redirectRequest where
  "rqNone = \<lparr>code_rq = ''nothere1'', ip_rq = None, userAgent_rq = None, referer_rq = None\<rparr>"

definition bodyPlain :: createLinkRequest where
  "bodyPlain = \<lparr>originalUrl_rq = ''https://example.com/a/b'', customAlias_rq = None,
     title_rq = None, description_rq = None, expiresAt_rq = None\<rparr>"

definition bodySchemeless :: createLinkRequest where
  "bodySchemeless = \<lparr>originalUrl_rq = ''example.com/a/b'', customAlias_rq = None,
     title_rq = None, description_rq = None, expiresAt_rq = None\<rparr>"

definition bodyShortAlias :: createLinkRequest where
  "bodyShortAlias = \<lparr>originalUrl_rq = ''https://example.com'', customAlias_rq = Some ''ab'',
     title_rq = None, description_rq = None, expiresAt_rq = None\<rparr>"

definition linkShortAlias :: link where
  "linkShortAlias = \<lparr>idLink = 0, originalUrl = ''https://example.com'', shortCode = ''ab'',
     customAlias = Some ''ab'', title = None, description = None, createdAt = 1000,
     updatedAt = 1000, expiresAt = None, isActive = True, totalClicks = 0\<rparr>"

definition bodyEmptyAlias :: createLinkRequest where
  "bodyEmptyAlias = \<lparr>originalUrl_rq = ''https://example.com'', customAlias_rq = Some [],
     title_rq = None, description_rq = None, expiresAt_rq = None\<rparr>"

definition linkEmptyAlias :: link where
  "linkEmptyAlias = \<lparr>idLink = 0, originalUrl = ''https://example.com'',
     shortCode = ''Ab3dE9xQ'', customAlias = Some [], title = None, description = None,
     createdAt = 1000, updatedAt = 1000, expiresAt = None, isActive = True,
     totalClicks = 0\<rparr>"

definition storeEmptyAlias :: store where
  "storeEmptyAlias = \<lparr>links = [linkEmptyAlias], clicks = [], nextId = 1\<rparr>"

definition storeCode :: store where
  "storeCode = \<lparr>links = [link1], clicks = [], nextId = 1\<rparr>"

definition bodyAliasCode :: createLinkRequest where
  "bodyAliasCode = \<lparr>originalUrl_rq = ''https://example.net'',
     customAlias_rq = Some ''Ab3dE9xQ'', title_rq = None, description_rq = None,
     expiresAt_rq = None\<rparr>"

definition bodySale :: createLinkRequest where
  "bodySale = \<lparr>originalUrl_rq = ''https://example.org/sale'', customAlias_rq = Some ''sale'',
     title_rq = None, description_rq = None, expiresAt_rq = None\<rparr>"

definition linkSale :: link where
  "linkSale = \<lparr>idLink = 1, originalUrl = ''https://example.org/sale'', shortCode = ''sale'',
     customAlias = Some ''sale'', title = None, description = None, createdAt = 3000,
     updatedAt = 3000, expiresAt = None, isActive = True, totalClicks = 0\<rparr>"

definition bodySaleExpired :: createLinkRequest where
  "bodySaleExpired = \<lparr>originalUrl_rq = ''https://example.org/sale'',
     customAlias_rq = Some ''sale'', title_rq = None, description_rq = None,
     expiresAt_rq = Some ''2020-01-01T00:00:00Z''\<rparr>"

definition linkSaleExpired :: link where
  "linkSaleExpired = \<lparr>idLink = 0, originalUrl = ''https://example.org/sale'',
     shortCode = ''sale'', customAlias = Some ''sale'', title = None, description = None,
     createdAt = 1600000000000, updatedAt = 1600000000000,
     expiresAt = Some 1577836800000, isActive = True, totalClicks = 0\<rparr>"

definition storeSaleExpired :: store where
  "storeSaleExpired = \<lparr>links = [linkSaleExpired], clicks = [], nextId = 1\<rparr>"

text \<open>
  A store with a third row whose alias differs from its code, as the two columns of the
  schema allow, and a request for that alias.
\<close>

definition link3 :: link where
  "link3 = \<lparr>idLink = 2, originalUrl = ''https://example.net/promo'', shortCode = ''Qw7eR5tY'',
     customAlias = Some ''promo'', title = None, description = None, createdAt = 1800,
     updatedAt = 1800, expiresAt = None, isActive = True, totalClicks = 0\<rparr>"

definition store2 :: store where
  "store2 = \<lparr>links = [link1, link2, link3], clicks = [], nextId = 3\<rparr>"

definition rqPromo :: redirectRequest where
  "rqPromo = \<lparr>code_rq = ''promo'', ip_rq = None, userAgent_rq = None, referer_rq = None\<rparr>"

section \<open>Lookup and redirect\<close>

lemma findFirstActive_SomeD:
  "findFirstActive s code = Some l \<Longrightarrow> l \<in> set (links s) \<and> matchesCode code l"
  unfolding findFirstActive_def by (auto simp: find_Some_iff)

lemma findFirstActive_None_iff:
  "findFirstActive s code = None \<longleftrightarrow> (\<forall>l \<in> set (links s). \<not> matchesCode code l)"
  unfolding findFirstActive_def by (auto simp: find_None_iff)

lemma redirect_none:
  "findFirstActive s (code_rq rq) = None \<Longrightarrow>
   redirect now s rq = (s, Json 404 (ErrorMsg ''Link not found''))"
  by (simp add: redirect_def)

lemma redirect_expired:
  "findFirstActive s (code_rq rq) = Some l \<Longrightarrow> expired now l \<Longrightarrow>
   redirect now s rq = (s, Json 410 (ErrorMsg ''Link has expired''))"
  by (simp add: redirect_def)

lemma redirect_found:
  "findFirstActive s (code_rq rq) = Some l \<Longrightarrow> \<not> expired now l \<Longrightarrow>
   redirect now s rq =
     (linkIncrement
        (clickCreate s now (idLink l) (ip_rq rq) (userAgent_rq rq) (referer_rq rq))
        now (idLink l),
      Redirect 302 (originalUrl l))"
  by (simp add: redirect_def)

lemma bump_other:
  "i \<notin> idLink ` set ls \<Longrightarrow> map (\<lambda>x. if idLink x = i then bump now x else x) ls = ls"
  by (induction ls) auto

lemma sum_bump:
  "distinct (map idLink ls) \<Longrightarrow> l \<in> set ls \<Longrightarrow>
   sum_list (map totalClicks (map (\<lambda>x. if idLink x = idLink l then bump now x else x) ls))
     = sum_list (map totalClicks ls) + 1"
proof (induction ls)
  case Nil
  then show ?case by simp
next
  case (Cons a ls)
  show ?case
  proof (cases "a = l")
    case True
    with Cons.prems have "idLink l \<notin> idLink ` set ls" by auto
    then show ?thesis using True by (simp add: bump_other bump_def)
  next
    case False
    with Cons.prems have "l \<in> set ls" "idLink a \<noteq> idLink l" by auto
    with Cons show ?thesis by simp
  qed
qed

lemma distinct_id_eq:
  "distinct (map idLink ls) \<Longrightarrow> l \<in> set ls \<Longrightarrow> x \<in> set ls \<Longrightarrow> idLink x = idLink l \<longleftrightarrow> x = l"
  by (meson distinct_map inj_onD)

lemma links_after_redirect:
  "links (linkIncrement (clickCreate s now i a b c) now i) =
   map (\<lambda>x. if idLink x = i then bump now x else x) (links s)"
  by (simp add: linkIncrement_def clickCreate_def)

lemma clicks_after_redirect:
  "clicks (linkIncrement (clickCreate s now i a b c) now j) =
   clicks s @ [\<lparr>idClick = nextId s, linkId = i, ip = a, userAgent = b, referer = c,
            country = None, city = None, device = None, browser = None, os = None,
            createdAtClick = now\<rparr>]"
  by (simp add: linkIncrement_def clickCreate_def)

text \<open>
  C1. When the code of a redirect request finds an active link that is not expired, the
  handler answers with a 302 redirect to the link's \<open>originalUrl\<close>, appends exactly one
  click row, which references the link and carries the request's IP, user agent and referer
  with the five other optional columns null, and adds exactly 1 to the \<open>totalClicks\<close> of
  that link and of no other (ids being the primary key of the table).
\<close>

theorem redirect_records_click:
  assumes found: "findFirstActive s (code_rq rq) = Some l"
    and live: "\<not> expired now l"
    and pk: "distinct (map idLink (links s))"
  shows "snd (redirect now s rq) = Redirect 302 (originalUrl l) \<and>
     clicks (fst (redirect now s rq)) =
       clicks s @ [\<lparr>idClick = nextId s, linkId = idLink l, ip = ip_rq rq,
                    userAgent = userAgent_rq rq, referer = referer_rq rq,
                    country = None, city = None, device = None, browser = None, os = None,
                    createdAtClick = now\<rparr>] \<and>
     links (fst (redirect now s rq)) =
       map (\<lambda>x. if x = l then l\<lparr>totalClicks := totalClicks l + 1, updatedAt := now\<rparr> else x)
         (links s) \<and>
     sum_list (map totalClicks (links (fst (redirect now s rq)))) =
       sum_list (map totalClicks (links s)) + 1"
proof -
  from found have mem: "l \<in> set (links s)" by (simp add: findFirstActive_SomeD)
  have eq: "map (\<lambda>x. if idLink x = idLink l then bump now x else x) (links s) =
        map (\<lambda>x. if x = l then l\<lparr>totalClicks := totalClicks l + 1, updatedAt := now\<rparr> else x)
         (links s)"
    using distinct_id_eq [OF pk mem] by (auto simp: bump_def)
  have r: "redirect now s rq =
     (linkIncrement
        (clickCreate s now (idLink l) (ip_rq rq) (userAgent_rq rq) (referer_rq rq))
        now (idLink l),
      Redirect 302 (originalUrl l))"
    using found live by (rule redirect_found)
  have "sum_list (map totalClicks
          (map (\<lambda>x. if idLink x = idLink l then bump now x else x) (links s))) =
        sum_list (map totalClicks (links s)) + 1"
    using pk mem by (rule sum_bump)
  then have sm: "sum_list (map totalClicks
          (map (\<lambda>x. if x = l then l\<lparr>totalClicks := totalClicks l + 1, updatedAt := now\<rparr>
                     else x) (links s))) =
        sum_list (map totalClicks (links s)) + 1"
    by (simp only: eq)
  show ?thesis
    unfolding r fst_conv snd_conv links_after_redirect clicks_after_redirect eq
    using sm by (intro conjI) (rule refl | assumption)+
qed

theorem redirect_records_click_witness:
  "findFirstActive store1 (code_rq rqCode) = Some link1 \<and> \<not> expired 5000 link1 \<and>
   distinct (map idLink (links store1)) \<and>
   snd (redirect 5000 store1 rqCode) = Redirect 302 ''https://example.com/a/b'' \<and>
   clicks (fst (redirect 5000 store1 rqCode)) =
     [\<lparr>idClick = 2, linkId = 0, ip = Some ''203.0.113.7'', userAgent = Some ''curl/8.0'',
       referer = None, country = None, city = None, device = None, browser = None,
       os = None, createdAtClick = 5000\<rparr>] \<and>
   links (fst (redirect 5000 store1 rqCode)) =
     [link1\<lparr>totalClicks := 1, updatedAt := 5000\<rparr>, link2] \<and>
   sum_list (map totalClicks (links (fst (redirect 5000 store1 rqCode)))) = 1"
proof -
  have h1: "findFirstActive store1 (code_rq rqCode) = Some link1"
    by (simp add: findFirstActive_def matchesCode_def store1_def rqCode_def link1_def link2_def)
  have h2: "\<not> expired 5000 link1" by (simp add: expired_def link1_def)
  have h3: "distinct (map idLink (links store1))" by (simp add: store1_def link1_def link2_def)
  show ?thesis
    using redirect_records_click [OF h1 h2 h3] h1 h2 h3
    by (simp add: store1_def rqCode_def link1_def link2_def)
qed

lemma findFirstActive_first:
  "findFirstActive s code = Some l \<Longrightarrow>
   \<exists>i < length (links s). links s ! i = l \<and> (\<forall>j < i. \<not> matchesCode code (links s ! j))"
  unfolding findFirstActive_def by (auto simp: find_Some_iff)

lemma findFirstActive_complete:
  "x \<in> set (links s) \<Longrightarrow> matchesCode code x \<Longrightarrow> \<exists>l. findFirstActive s code = Some l"
  using findFirstActive_None_iff [of s code] by (cases "findFirstActive s code") auto

lemma redirect_status_found:
  "findFirstActive s (code_rq rq) = Some l \<Longrightarrow> status (snd (redirect now s rq)) \<noteq> 404"
  by (simp add: redirect_def)

text \<open>
  C2. The lookup finds a link exactly when the store has an active link whose
  \<open>shortCode\<close> or whose \<open>customAlias\<close> is the code, and the link it returns is the first
  such row of the table. When a row matches, by either column, the answer is not 404; when
  no row matches, the handler answers 404; and when the match has an \<open>expiresAt\<close> before
  the time of the request it answers 410, while the link is still in the store and active.
\<close>

theorem resolve_lookup_notfound_expired:
  "(findFirstActive s (code_rq rq) = Some l \<longrightarrow>
      l \<in> set (links s) \<and> (shortCode l = code_rq rq \<or> customAlias l = Some (code_rq rq)) \<and>
      isActive l \<and>
      (\<exists>i < length (links s). links s ! i = l \<and>
         (\<forall>j < i. \<not> ((shortCode (links s ! j) = code_rq rq \<or>
                       customAlias (links s ! j) = Some (code_rq rq)) \<and>
                      isActive (links s ! j))))) \<and>
   (\<forall>x \<in> set (links s).
      (shortCode x = code_rq rq \<or> customAlias x = Some (code_rq rq)) \<and> isActive x \<longrightarrow>
      (\<exists>f. findFirstActive s (code_rq rq) = Some f) \<and>
      status (snd (redirect now s rq)) \<noteq> 404) \<and>
   ((\<forall>x \<in> set (links s).
       \<not> ((shortCode x = code_rq rq \<or> customAlias x = Some (code_rq rq)) \<and> isActive x)) \<longrightarrow>
      findFirstActive s (code_rq rq) = None \<and>
      redirect now s rq = (s, Json 404 (ErrorMsg ''Link not found''))) \<and>
   (findFirstActive s (code_rq rq) = Some l \<and> expiresAt l = Some e \<and> e < now \<longrightarrow>
      redirect now s rq = (s, Json 410 (ErrorMsg ''Link has expired'')) \<and>
      l \<in> set (links (fst (redirect now s rq))) \<and> isActive l)"
proof (intro conjI impI ballI)
  assume f: "findFirstActive s (code_rq rq) = Some l"
  then show "l \<in> set (links s)"
    "(shortCode l = code_rq rq \<or> customAlias l = Some (code_rq rq))" "isActive l"
    by (auto dest: findFirstActive_SomeD simp: matchesCode_def)
  from findFirstActive_first [OF f]
  show "\<exists>i < length (links s). links s ! i = l \<and>
         (\<forall>j < i. \<not> ((shortCode (links s ! j) = code_rq rq \<or>
                       customAlias (links s ! j) = Some (code_rq rq)) \<and>
                      isActive (links s ! j)))"
    by (simp add: matchesCode_def)
next
  fix x
  assume "x \<in> set (links s)"
    and "(shortCode x = code_rq rq \<or> customAlias x = Some (code_rq rq)) \<and> isActive x"
  then have "\<exists>f. findFirstActive s (code_rq rq) = Some f"
    by (intro findFirstActive_complete [of x]) (simp_all add: matchesCode_def)
  then show "\<exists>f. findFirstActive s (code_rq rq) = Some f"
    "status (snd (redirect now s rq)) \<noteq> 404"
    by (auto simp: redirect_status_found)
next
  assume "\<forall>x \<in> set (links s).
       \<not> ((shortCode x = code_rq rq \<or> customAlias x = Some (code_rq rq)) \<and> isActive x)"
  then show n: "findFirstActive s (code_rq rq) = None"
    by (simp add: findFirstActive_None_iff matchesCode_def)
  then show "redirect now s rq = (s, Json 404 (ErrorMsg ''Link not found''))"
    by (rule redirect_none)
next
  assume a: "findFirstActive s (code_rq rq) = Some l \<and> expiresAt l = Some e \<and> e < now"
  then have ex: "expired now l" by (simp add: expired_def)
  with a have r: "redirect now s rq = (s, Json 410 (ErrorMsg ''Link has expired''))"
    by (simp add: redirect_expired)
  from a have "l \<in> set (links s)" "isActive l"
    by (auto dest: findFirstActive_SomeD simp: matchesCode_def)
  then show "redirect now s rq = (s, Json 410 (ErrorMsg ''Link has expired''))"
    "l \<in> set (links (fst (redirect now s rq)))" "isActive l"
    using r by simp_all
qed

theorem resolve_lookup_notfound_expired_witness:
  "findFirstActive store1 (code_rq rqSale) = Some link2 \<and> expiresAt link2 = Some 2000 \<and>
   (2000::int) < 5000 \<and> link2 \<in> set (links store1) \<and> isActive link2 \<and>
   redirect 5000 store1 rqSale = (store1, Json 410 (ErrorMsg ''Link has expired'')) \<and>
   findFirstActive store1 (code_rq rqNone) = None \<and>
   redirect 5000 store1 rqNone = (store1, Json 404 (ErrorMsg ''Link not found'')) \<and>
   link3 \<in> set (links store2) \<and> shortCode link3 \<noteq> code_rq rqPromo \<and>
   customAlias link3 = Some (code_rq rqPromo) \<and> isActive link3 \<and>
   findFirstActive store2 (code_rq rqPromo) = Some link3 \<and> links store2 ! 2 = link3 \<and>
   status (snd (redirect 5000 store2 rqPromo)) = 302"
proof -
  have h0: "findFirstActive store1 (code_rq rqNone) = None"
    by (simp add: findFirstActive_def matchesCode_def store1_def rqNone_def link1_def link2_def)
  have h1: "findFirstActive store1 (code_rq rqSale) = Some link2"
    by (simp add: findFirstActive_def matchesCode_def store1_def rqSale_def link1_def link2_def)
  have h2: "expiresAt link2 = Some 2000" by (simp add: link2_def)
  have h3: "\<forall>x \<in> set (links store1).
       \<not> ((shortCode x = code_rq rqNone \<or> customAlias x = Some (code_rq rqNone)) \<and>
          isActive x)"
    by (simp add: store1_def rqNone_def link1_def link2_def)
  have h4: "link3 \<in> set (links store2)" by (simp add: store2_def)
  have h5: "(shortCode link3 = code_rq rqPromo \<or> customAlias link3 = Some (code_rq rqPromo)) \<and>
      isActive link3"
    by (simp add: link3_def rqPromo_def)
  have h6: "shortCode link3 \<noteq> code_rq rqPromo" by (simp add: link3_def rqPromo_def)
  have h7: "findFirstActive store2 (code_rq rqPromo) = Some link3"
    by (simp add: findFirstActive_def matchesCode_def store2_def rqPromo_def link1_def
        link2_def link3_def)
  have h8: "status (snd (redirect 5000 store2 rqPromo)) = 302"
    by (simp add: redirect_def h7 expired_def link3_def)
  note t = resolve_lookup_notfound_expired
  from t [where s = store2 and rq = rqPromo and l = link3 and e = 2000 and now = 5000] h4 h5
  have "\<exists>f. findFirstActive store2 (code_rq rqPromo) = Some f" by blast
  with t [where s = store1 and rq = rqSale and l = link2 and e = 2000 and now = 5000]
    t [where s = store1 and rq = rqNone and l = link2 and e = 2000 and now = 5000]
    h0 h1 h2 h3 h4 h5 h6 h7 h8
  show ?thesis by (simp add: store2_def)
qed

text \<open>
  C10. A redirect request that fails, with 404 because no active link matches or with 410
  because the match is expired, leaves the store as it was: the clicks and the links,
  counters included, are those of before.
\<close>

theorem redirect_failure_store_unchanged:
  "(findFirstActive s (code_rq rq) = None \<longrightarrow>
      status (snd (redirect now s rq)) = 404 \<and> fst (redirect now s rq) = s) \<and>
   (findFirstActive s (code_rq rq) = Some l \<and> expired now l \<longrightarrow>
      status (snd (redirect now s rq)) = 410 \<and> fst (redirect now s rq) = s) \<and>
   (status (snd (redirect now s rq)) \<noteq> 302 \<longrightarrow>
      clicks (fst (redirect now s rq)) = clicks s \<and>
      links (fst (redirect now s rq)) = links s \<and> fst (redirect now s rq) = s)"
  by (auto simp: redirect_def split: option.splits)

theorem redirect_failure_store_unchanged_witness:
  "findFirstActive store1 (code_rq rqNone) = None \<and>
   status (snd (redirect 5000 store1 rqNone)) = 404 \<and>
   fst (redirect 5000 store1 rqNone) = store1 \<and>
   findFirstActive store1 (code_rq rqSale) = Some link2 \<and> expired 5000 link2 \<and>
   status (snd (redirect 5000 store1 rqSale)) = 410 \<and>
   fst (redirect 5000 store1 rqSale) = store1 \<and>
   clicks (fst (redirect 5000 store1 rqSale)) = clicks store1 \<and>
   links (fst (redirect 5000 store1 rqSale)) = links store1"
proof -
  have h1: "findFirstActive store1 (code_rq rqNone) = None"
    by (simp add: findFirstActive_def matchesCode_def store1_def rqNone_def link1_def link2_def)
  have h2: "findFirstActive store1 (code_rq rqSale) = Some link2"
    by (simp add: findFirstActive_def matchesCode_def store1_def rqSale_def link1_def link2_def)
  have h3: "expired 5000 link2" by (simp add: expired_def link2_def)
  show ?thesis
    using redirect_failure_store_unchanged
        [where s = store1 and rq = rqNone and now = 5000 and l = link2]
      redirect_failure_store_unchanged
        [where s = store1 and rq = rqSale and now = 5000 and l = link2] h1 h2 h3
    by simp
qed

section \<open>The invariant of the store\<close>

lemmas createDefs = createLink_def createLinkSchema_def zodUrl_def isValidUrl_def
  hasScheme_def schemeStart_def isAlpha_def isDigit_def formatUrl_def startsWith_def
  truthy_def toDate_def findUniqueAlias_def linkCreate_def violatesUnique_def newLink_def
  Let_def

lemma storeInv_empty: "storeInv emptyStore"
  by (simp add: storeInv_def emptyStore_def)

lemma createLink_cases:
  "fst (createLink P now nano s b) = s \<or>
   (\<exists>d. fst (createLink P now nano s b) =
      s\<lparr>links := links s @ [newLink (nextId s) now d], nextId := Suc (nextId s)\<rparr>)"
  by (auto simp: createLink_def linkCreate_def Let_def split: option.splits sum.splits)

lemma storeInv_append:
  "storeInv s \<Longrightarrow>
   storeInv (s\<lparr>links := links s @ [newLink (nextId s) now d], nextId := Suc (nextId s)\<rparr>)"
  by (auto simp: storeInv_def newLink_def less_Suc_eq)

lemma storeInv_createLink:
  "storeInv s \<Longrightarrow> storeInv (fst (createLink P now nano s b))"
  using createLink_cases [of P now nano s b] by (auto simp: storeInv_append)

lemma map_id_bump:
  "map idLink (map (\<lambda>x. if idLink x = i then bump now x else x) ls) = map idLink ls"
  by (induction ls) (auto simp: bump_def)

lemma storeInv_record:
  assumes inv: "storeInv s" and mem: "l \<in> set (links s)"
  shows "storeInv (linkIncrement (clickCreate s now (idLink l) a b c) now (idLink l))"
proof -
  let ?s' = "linkIncrement (clickCreate s now (idLink l) a b c) now (idLink l)"
  from inv have pk: "distinct (map idLink (links s))" by (simp add: storeInv_def)
  have l: "links ?s' = map (\<lambda>x. if idLink x = idLink l then bump now x else x) (links s)"
    by (rule links_after_redirect)
  have n: "nextId ?s' = Suc (nextId s)" by (simp add: linkIncrement_def clickCreate_def)
  have c: "length (clicks ?s') = Suc (length (clicks s))"
    by (simp add: clicks_after_redirect)
  have ids: "map idLink (links ?s') = map idLink (links s)"
    unfolding l by (rule map_id_bump)
  have d: "distinct (map idLink (links ?s'))" using pk by (simp only: ids)
  have "idLink ` set (links ?s') = idLink ` set (links s)"
    using ids by (metis list.set_map)
  then have b: "\<forall>x \<in> set (links ?s'). idLink x < nextId ?s'"
    using inv unfolding n storeInv_def by (auto simp: less_Suc_eq dest!: equalityD1)
  have "sum_list (map totalClicks (links ?s')) = sum_list (map totalClicks (links s)) + 1"
    unfolding l using pk mem by (rule sum_bump)
  with inv have sm: "sum_list (map totalClicks (links ?s')) = int (length (clicks ?s'))"
    unfolding c by (simp add: storeInv_def)
  show ?thesis unfolding storeInv_def using d b sm by blast
qed

lemma storeInv_redirect:
  assumes "storeInv s" shows "storeInv (fst (redirect now s rq))"
proof (cases "findFirstActive s (code_rq rq)")
  case None
  with assms show ?thesis by (simp add: redirect_none)
next
  case (Some l)
  show ?thesis
  proof (cases "expired now l")
    case True
    with Some assms show ?thesis by (simp add: redirect_expired)
  next
    case False
    from Some have "l \<in> set (links s)" by (simp add: findFirstActive_SomeD)
    with assms show ?thesis
      by (simp add: redirect_found [OF Some False] storeInv_record)
  qed
qed

lemma reachable_storeInv: "reachable P s \<Longrightarrow> storeInv s"
  by (induction rule: reachable.induct)
     (simp_all add: storeInv_empty storeInv_createLink storeInv_redirect)

text \<open>
  C3. In every store that the handlers reach from the empty store, the \<open>totalClicks\<close>
  of the overview is the number of click rows, and that number is the sum of the
  \<open>totalClicks\<close> counters of all links.
\<close>

theorem overview_totalClicks_consistent:
  assumes "reachable P s"
  shows "totalClicks_a (overview P now s) = length (clicks s) \<and>
         int (length (clicks s)) = sum_list (map totalClicks (links s))"
  using reachable_storeInv [OF assms] by (simp add: overview_def storeInv_def)

lemma create_bodyPlain:
  "createLink platform0 1000 ''Ab3dE9xQ'' emptyStore bodyPlain =
     (\<lparr>links = [link1], clicks = [], nextId = 1\<rparr>, Json 201 (LinkJson link1))"
  by (simp add: createDefs platform0_def emptyStore_def bodyPlain_def link1_def)

theorem overview_totalClicks_consistent_witness:
  "reachable platform0
     (fst (redirect 5000 (fst (createLink platform0 1000 ''Ab3dE9xQ'' emptyStore bodyPlain))
        rqCode)) \<and>
   totalClicks_a (overview platform0 6000
     (fst (redirect 5000 (fst (createLink platform0 1000 ''Ab3dE9xQ'' emptyStore bodyPlain))
        rqCode))) = 1 \<and>
   sum_list (map totalClicks (links
     (fst (redirect 5000 (fst (createLink platform0 1000 ''Ab3dE9xQ'' emptyStore bodyPlain))
        rqCode)))) = 1"
proof -
  let ?s = "fst (redirect 5000 (fst (createLink platform0 1000 ''Ab3dE9xQ'' emptyStore bodyPlain))
        rqCode)"
  have r: "reachable platform0 ?s"
    by (intro r_redirect r_create r_empty)
  have c: "length (clicks ?s) = 1"
    by (simp add: create_bodyPlain redirect_def findFirstActive_def matchesCode_def
        expired_def linkIncrement_def clickCreate_def rqCode_def link1_def)
  show ?thesis
    using overview_totalClicks_consistent [OF r, of 6000] r c by simp
qed

section \<open>Creating links\<close>

lemma schemeless_no_scheme: "\<not> hasScheme ''example.com/a/b''"
  by (simp add: hasScheme_def schemeStart_def isAlpha_def isDigit_def)

text \<open>
  C4. \<open>formatUrl\<close> would turn \<open>example.com/a/b\<close> into \<open>https://example.com/a/b\<close>,
  but the handler validates the body before it formats the URL: the input has no scheme, so
  \<open>z.string().url()\<close> fails and the answer is 400 with the store untouched, whatever
  the rest of the platform accepts.
\<close>

theorem create_schemeless_rejected:
  "formatUrl ''example.com/a/b'' = ''https://example.com/a/b'' \<and>
   createLink P now nano s bodySchemeless = (s, Json 400 (ErrorMsg ''Invalid input data''))"
  using schemeless_no_scheme
  by (simp add: createLink_def createLinkSchema_def zodUrl_def isValidUrl_def
      bodySchemeless_def formatUrl_def startsWith_def)

text \<open>
  C7. The form rejects the alias \<open>ab\<close> as shorter than 3 characters, but the handler
  accepts a request that carries it: the answer is 201 and the link is stored.
\<close>

theorem create_short_alias_accepted:
  "aliasFormError ''ab'' = Some ''Custom alias must be at least 3 characters'' \<and>
   createLink platform0 1000 ''Ab3dE9xQ'' emptyStore bodyShortAlias =
     (\<lparr>links = [linkShortAlias], clicks = [], nextId = 1\<rparr>, Json 201 (LinkJson linkShortAlias))"
  by (simp add: aliasFormError_def createDefs platform0_def emptyStore_def
      bodyShortAlias_def linkShortAlias_def)

lemma createLink_valid:
  assumes "createLinkSchema P b" and "isValidUrl P (formatUrl (originalUrl_rq b))"
  shows "createLink P now nano s b =
     (let code = (case customAlias_rq b of None \<Rightarrow> nano
                  | Some a \<Rightarrow> if a \<noteq> [] then a else nano) in
      if truthy (customAlias_rq b) \<and>
         (case customAlias_rq b of None \<Rightarrow> False | Some a \<Rightarrow> findUniqueAlias s a \<noteq> None)
      then (s, Json 400 (ErrorMsg ''Custom alias already exists''))
      else
        (case linkCreate s now
                \<lparr>originalUrl_d = formatUrl (originalUrl_rq b), shortCode_d = code,
                 customAlias_d = customAlias_rq b, title_d = title_rq b,
                 description_d = description_rq b,
                 expiresAt_d = toDate P (expiresAt_rq b)\<rparr> of
           Inl e \<Rightarrow> (s, Json 500 (ErrorMsg ''Internal server error''))
         | Inr (s', l) \<Rightarrow> (s', Json 201 (LinkJson l))))"
  using assms by (simp add: createLink_def Let_def)

lemma createLink_201D:
  assumes "createLink P now nano s b = (s', Json 201 (LinkJson l))"
  shows "createLinkSchema P b \<and> isValidUrl P (formatUrl (originalUrl_rq b)) \<and>
     linkCreate s now
        \<lparr>originalUrl_d = formatUrl (originalUrl_rq b),
         shortCode_d = (case customAlias_rq b of None \<Rightarrow> nano
                        | Some a \<Rightarrow> if a \<noteq> [] then a else nano),
         customAlias_d = customAlias_rq b, title_d = title_rq b,
         description_d = description_rq b,
         expiresAt_d = toDate P (expiresAt_rq b)\<rparr> = Inr (s', l)"
  using assms
  by (auto simp: createLink_def Let_def split: if_splits sum.splits prod.splits)

lemma linkCreate_InrD:
  "linkCreate s now d = Inr (s', l) \<Longrightarrow>
   l = newLink (nextId s) now d \<and> links s' = links s @ [l] \<and> clicks s' = clicks s \<and>
   \<not> violatesUnique (links s) d"
  by (auto simp: linkCreate_def Let_def split: if_splits)

text \<open>
  C9, as amended. When a request with a non-empty \<open>customAlias\<close> is answered 201, the
  link appended to the table has the alias in both \<open>shortCode\<close> and
  \<open>customAlias\<close>.
\<close>

theorem create_alias_is_shortCode:
  assumes "createLink P now nano s b = (s', Json 201 (LinkJson l))"
    and "customAlias_rq b = Some a" and "a \<noteq> []"
  shows "shortCode l = a \<and> customAlias l = Some a \<and> links s' = links s @ [l]"
  using createLink_201D [OF assms(1)] assms(2,3)
  by (auto dest!: linkCreate_InrD simp: newLink_def)

theorem create_alias_is_shortCode_witness:
  "createLink platform0 3000 ''Zz9yX8wV'' storeCode bodySale =
     (\<lparr>links = [link1, linkSale], clicks = [], nextId = 2\<rparr>, Json 201 (LinkJson linkSale)) \<and>
   customAlias_rq bodySale = Some ''sale'' \<and> ''sale'' \<noteq> [] \<and>
   shortCode linkSale = ''sale'' \<and> customAlias linkSale = Some ''sale''"
proof -
  have h1: "createLink platform0 3000 ''Zz9yX8wV'' storeCode bodySale =
     (\<lparr>links = [link1, linkSale], clicks = [], nextId = 2\<rparr>, Json 201 (LinkJson linkSale))"
    by (simp add: createDefs platform0_def storeCode_def bodySale_def linkSale_def link1_def)
  have h2: "customAlias_rq bodySale = Some ''sale''" by (simp add: bodySale_def)
  have h3: "''sale'' \<noteq> []" by simp
  show ?thesis using create_alias_is_shortCode [OF h1 h2 h3] h1 h2 by simp
qed

text \<open>
  C9 as stated fails for the empty alias: it is supplied and the request is accepted, but
  \<open>customAlias || nanoid(8)\<close> takes the generated code, so the stored row has
  \<open>customAlias = ""\<close> and a random \<open>shortCode\<close>.
\<close>

theorem create_empty_alias_counterexample:
  "createLink platform0 1000 ''Ab3dE9xQ'' emptyStore bodyEmptyAlias =
     (storeEmptyAlias, Json 201 (LinkJson linkEmptyAlias)) \<and>
   customAlias_rq bodyEmptyAlias = Some [] \<and>
   customAlias linkEmptyAlias = Some [] \<and> shortCode linkEmptyAlias = ''Ab3dE9xQ'' \<and>
   shortCode linkEmptyAlias \<noteq> []"
  by (simp add: createDefs platform0_def emptyStore_def bodyEmptyAlias_def
      linkEmptyAlias_def storeEmptyAlias_def)

text \<open>
  C6, as amended. A valid request without \<open>customAlias\<close> whose generated code is the
  \<open>shortCode\<close> of a stored link is answered 500 \<open>Internal server error\<close>, and
  nothing is stored.
\<close>

theorem create_code_collision_500:
  assumes "createLinkSchema P b" and "isValidUrl P (formatUrl (originalUrl_rq b))"
    and "customAlias_rq b = None" and "\<exists>l \<in> set (links s). shortCode l = nano"
  shows "createLink P now nano s b = (s, Json 500 (ErrorMsg ''Internal server error''))"
  using assms(3,4)
  by (simp add: createLink_valid [OF assms(1,2)] truthy_def linkCreate_def violatesUnique_def
      list_ex_iff)

theorem create_code_collision_500_witness:
  "createLinkSchema platform0 bodyPlain \<and>
   isValidUrl platform0 (formatUrl (originalUrl_rq bodyPlain)) \<and>
   customAlias_rq bodyPlain = None \<and> link1 \<in> set (links storeCode) \<and>
   shortCode link1 = ''Ab3dE9xQ'' \<and>
   createLink platform0 2000 ''Ab3dE9xQ'' storeCode bodyPlain =
     (storeCode, Json 500 (ErrorMsg ''Internal server error''))"
proof -
  have h1: "createLinkSchema platform0 bodyPlain"
    by (simp add: createDefs platform0_def bodyPlain_def)
  have h2: "isValidUrl platform0 (formatUrl (originalUrl_rq bodyPlain))"
    by (simp add: createDefs platform0_def bodyPlain_def)
  have h3: "customAlias_rq bodyPlain = None" by (simp add: bodyPlain_def)
  have h4: "\<exists>l \<in> set (links storeCode). shortCode l = ''Ab3dE9xQ''"
    by (simp add: storeCode_def link1_def)
  show ?thesis
    using create_code_collision_500 [OF h1 h2 h3 h4, of 2000] h1 h2 h3
    by (simp add: storeCode_def link1_def)
qed

text \<open>
  C6 as stated fails: the generated code \<open>Ab3dE9xQ\<close> is taken, and the answer is 500,
  not 400.
\<close>

theorem create_code_collision_counterexample:
  "customAlias_rq bodyPlain = None \<and> shortCode link1 = ''Ab3dE9xQ'' \<and>
   links storeCode = [link1] \<and>
   createLink platform0 2000 ''Ab3dE9xQ'' storeCode bodyPlain =
     (storeCode, Json 500 (ErrorMsg ''Internal server error'')) \<and>
   status (snd (createLink platform0 2000 ''Ab3dE9xQ'' storeCode bodyPlain)) \<noteq> 400"
  by (simp add: createDefs platform0_def bodyPlain_def storeCode_def link1_def)

lemma find_append_last:
  "\<forall>y \<in> set xs. \<not> Q y \<Longrightarrow> Q x \<Longrightarrow> find Q (xs @ [x]) = Some x"
  by (induction xs) auto

lemma createLink_alias_taken:
  assumes "createLinkSchema P b" and "isValidUrl P (formatUrl (originalUrl_rq b))"
    and "customAlias_rq b = Some a" and "a \<noteq> []"
    and "\<exists>l \<in> set (links s). customAlias l = Some a"
  shows "createLink P now nano s b = (s, Json 400 (ErrorMsg ''Custom alias already exists''))"
proof -
  from assms(5) have "findUniqueAlias s a \<noteq> None"
    by (auto simp: findUniqueAlias_def find_None_iff)
  with assms(3,4) show ?thesis
    by (simp add: createLink_valid [OF assms(1,2)] truthy_def)
qed

lemma createLink_alias_fresh:
  assumes "createLinkSchema P b" and "isValidUrl P (formatUrl (originalUrl_rq b))"
    and al: "customAlias_rq b = Some a" and ne: "a \<noteq> []"
    and fresh: "\<forall>l \<in> set (links s). customAlias l \<noteq> Some a \<and> shortCode l \<noteq> a"
  shows "\<exists>s' l. createLink P now nano s b = (s', Json 201 (LinkJson l)) \<and>
           links s' = links s @ [l] \<and> shortCode l = a \<and> customAlias l = Some a \<and>
           isActive l \<and> findFirstActive s' a = Some l"
proof -
  let ?d = "\<lparr>originalUrl_d = formatUrl (originalUrl_rq b), shortCode_d = a,
             customAlias_d = Some a, title_d = title_rq b,
             description_d = description_rq b,
             expiresAt_d = toDate P (expiresAt_rq b)\<rparr>"
  let ?l = "newLink (nextId s) now ?d"
  let ?s' = "s\<lparr>links := links s @ [?l], nextId := Suc (nextId s)\<rparr>"
  from fresh have nf: "findUniqueAlias s a = None"
    by (simp add: findUniqueAlias_def find_None_iff)
  from fresh have nv: "\<not> violatesUnique (links s) ?d"
    by (auto simp: violatesUnique_def list_ex_iff)
  have c: "createLink P now nano s b = (?s', Json 201 (LinkJson ?l))"
    using al ne nf nv
    by (simp add: createLink_valid [OF assms(1,2)] truthy_def linkCreate_def Let_def)
  have m: "matchesCode a ?l" by (simp add: matchesCode_def newLink_def)
  from fresh have "\<forall>y \<in> set (links s). \<not> matchesCode a y"
    by (auto simp: matchesCode_def)
  then have f: "findFirstActive ?s' a = Some ?l"
    using m by (simp add: findFirstActive_def find_append_last)
  show ?thesis
    using c f by (intro exI [of _ ?s'] exI [of _ ?l]) (simp add: newLink_def)
qed

text \<open>
  C5, as amended. For a valid request with a non-empty \<open>customAlias\<close>: when a stored
  link holds the alias, the answer is 400 \<open>Custom alias already exists\<close> and nothing is
  stored; when no stored link has it as \<open>customAlias\<close> or as \<open>shortCode\<close>, the
  answer is 201, the new link is the one the lookup finds for the alias, and a redirect
  request for the alias is answered with a redirect to its URL at every time at which the
  link is not expired.
\<close>

theorem create_alias_conflict_or_resolvable:
  assumes "createLinkSchema P b" and "isValidUrl P (formatUrl (originalUrl_rq b))"
    and "customAlias_rq b = Some a" and "a \<noteq> []"
  shows "((\<exists>l \<in> set (links s). customAlias l = Some a) \<longrightarrow>
            createLink P now nano s b =
              (s, Json 400 (ErrorMsg ''Custom alias already exists''))) \<and>
         ((\<forall>l \<in> set (links s). customAlias l \<noteq> Some a \<and> shortCode l \<noteq> a) \<longrightarrow>
            (\<exists>s' l. createLink P now nano s b = (s', Json 201 (LinkJson l)) \<and>
               links s' = links s @ [l] \<and> customAlias l = Some a \<and>
               findFirstActive s' a = Some l \<and>
               (\<forall>t rq. code_rq rq = a \<and> \<not> expired t l \<longrightarrow>
                  snd (redirect t s' rq) = Redirect 302 (originalUrl l))))"
proof (intro conjI impI)
  assume "\<exists>l \<in> set (links s). customAlias l = Some a"
  with assms show "createLink P now nano s b =
      (s, Json 400 (ErrorMsg ''Custom alias already exists''))"
    by (rule createLink_alias_taken)
next
  assume "\<forall>l \<in> set (links s). customAlias l \<noteq> Some a \<and> shortCode l \<noteq> a"
  with assms obtain s' l where
    c: "createLink P now nano s b = (s', Json 201 (LinkJson l))" and
    l: "links s' = links s @ [l]" "customAlias l = Some a" and
    f: "findFirstActive s' a = Some l"
    using createLink_alias_fresh [of P b a s now nano] by blast
  have "\<forall>t rq. code_rq rq = a \<and> \<not> expired t l \<longrightarrow>
      snd (redirect t s' rq) = Redirect 302 (originalUrl l)"
    using f by (auto simp: redirect_found)
  with c l f show "\<exists>s' l. createLink P now nano s b = (s', Json 201 (LinkJson l)) \<and>
               links s' = links s @ [l] \<and> customAlias l = Some a \<and>
               findFirstActive s' a = Some l \<and>
               (\<forall>t rq. code_rq rq = a \<and> \<not> expired t l \<longrightarrow>
                  snd (redirect t s' rq) = Redirect 302 (originalUrl l))"
    by blast
qed

theorem create_alias_conflict_or_resolvable_witness:
  "createLinkSchema platform0 bodySale \<and>
   isValidUrl platform0 (formatUrl (originalUrl_rq bodySale)) \<and>
   customAlias_rq bodySale = Some ''sale'' \<and> ''sale'' \<noteq> [] \<and>
   customAlias link2 = Some ''sale'' \<and> link2 \<in> set (links store1) \<and>
   createLink platform0 3000 ''Zz9yX8wV'' store1 bodySale =
     (store1, Json 400 (ErrorMsg ''Custom alias already exists'')) \<and>
   links storeCode = [link1] \<and> customAlias link1 \<noteq> Some ''sale'' \<and>
   shortCode link1 \<noteq> ''sale'' \<and>
   createLink platform0 3000 ''Zz9yX8wV'' storeCode bodySale =
     (\<lparr>links = [link1, linkSale], clicks = [], nextId = 2\<rparr>, Json 201 (LinkJson linkSale)) \<and>
   findFirstActive \<lparr>links = [link1, linkSale], clicks = [], nextId = 2\<rparr> ''sale'' =
     Some linkSale \<and>
   \<not> expired 5000 linkSale \<and>
   snd (redirect 5000 \<lparr>links = [link1, linkSale], clicks = [], nextId = 2\<rparr> rqSale) =
     Redirect 302 ''https://example.org/sale''"
proof -
  have h1: "createLinkSchema platform0 bodySale" by (simp add: createDefs platform0_def bodySale_def)
  have h2: "isValidUrl platform0 (formatUrl (originalUrl_rq bodySale))"
    by (simp add: createDefs platform0_def bodySale_def)
  have h3: "customAlias_rq bodySale = Some ''sale''" by (simp add: bodySale_def)
  have h4: "''sale'' \<noteq> []" by simp
  have h5: "\<exists>l \<in> set (links store1). customAlias l = Some ''sale''"
    by (simp add: store1_def link1_def link2_def)
  have h6: "\<forall>l \<in> set (links storeCode). customAlias l \<noteq> Some ''sale'' \<and> shortCode l \<noteq> ''sale''"
    by (simp add: storeCode_def link1_def)
  have c: "createLink platform0 3000 ''Zz9yX8wV'' storeCode bodySale =
     (\<lparr>links = [link1, linkSale], clicks = [], nextId = 2\<rparr>, Json 201 (LinkJson linkSale))"
    by (simp add: createDefs platform0_def storeCode_def bodySale_def linkSale_def link1_def)
  have e: "\<not> expired 5000 linkSale" by (simp add: expired_def linkSale_def)
  have q: "code_rq rqSale = ''sale''" by (simp add: rqSale_def)
  note t1 = create_alias_conflict_or_resolvable [OF h1 h2 h3 h4, of store1 3000 "''Zz9yX8wV''"]
  note t2 = create_alias_conflict_or_resolvable [OF h1 h2 h3 h4, of storeCode 3000 "''Zz9yX8wV''"]
  from t1 h5 have a: "createLink platform0 3000 ''Zz9yX8wV'' store1 bodySale =
     (store1, Json 400 (ErrorMsg ''Custom alias already exists''))" by blast
  from t2 h6 c e q have b:
    "findFirstActive \<lparr>links = [link1, linkSale], clicks = [], nextId = 2\<rparr> ''sale'' =
       Some linkSale \<and>
     snd (redirect 5000 \<lparr>links = [link1, linkSale], clicks = [], nextId = 2\<rparr> rqSale) =
       Redirect 302 (originalUrl linkSale)"
    by auto
  show ?thesis using h1 h2 h3 a b c e
    by (simp add: store1_def link1_def link2_def storeCode_def linkSale_def)
qed

text \<open>
  C5 as stated fails three times: the empty alias held by a stored link gives 500, not the
  conflict answer; an alias no link holds, but which is the \<open>shortCode\<close> of a stored
  link, gives 500 instead of success; and an alias created with an \<open>expiresAt\<close> in the
  past is answered 410 by the redirect that follows.
\<close>

theorem create_alias_counterexample:
  "customAlias linkEmptyAlias = customAlias_rq bodyEmptyAlias \<and>
   links storeEmptyAlias = [linkEmptyAlias] \<and>
   createLink platform0 2000 ''Zz9yX8wV'' storeEmptyAlias bodyEmptyAlias =
     (storeEmptyAlias, Json 500 (ErrorMsg ''Internal server error'')) \<and>
   links storeCode = [link1] \<and> customAlias link1 = None \<and>
   customAlias_rq bodyAliasCode = Some ''Ab3dE9xQ'' \<and>
   createLink platform0 2000 ''Zz9yX8wV'' storeCode bodyAliasCode =
     (storeCode, Json 500 (ErrorMsg ''Internal server error'')) \<and>
   customAlias_rq bodySaleExpired = Some ''sale'' \<and>
   createLink platform0 1600000000000 ''Zz9yX8wV'' emptyStore bodySaleExpired =
     (storeSaleExpired, Json 201 (LinkJson linkSaleExpired)) \<and>
   redirect 1600000000000 storeSaleExpired rqSale =
     (storeSaleExpired, Json 410 (ErrorMsg ''Link has expired''))"
  by (simp add: createDefs platform0_def emptyStore_def bodyEmptyAlias_def
      linkEmptyAlias_def storeEmptyAlias_def storeCode_def bodyAliasCode_def
      bodySaleExpired_def linkSaleExpired_def storeSaleExpired_def link1_def redirect_def findFirstActive_def matchesCode_def
      expired_def rqSale_def)

section \<open>Listing\<close>

lemmas parseDefs = parseInt_def isSpace_def startsWith_def isRadixDigit_def digitVal_def
  digitsValue_def Let_def

lemma byCreatedDesc_sorted:
  "sorted_wrt (\<lambda>a b. createdAt b \<le> createdAt a) (byCreatedDesc ls)"
proof -
  have "sorted (map (\<lambda>l. - createdAt l) (byCreatedDesc ls))"
    unfolding byCreatedDesc_def by (rule sorted_sort_key)
  then show ?thesis by (simp add: sorted_wrt_map)
qed

lemma byCreatedDesc_mset: "mset (byCreatedDesc ls) = mset ls"
  by (simp add: byCreatedDesc_def)

lemma orDefault_Num_cases:
  "orDefault v d = Num n \<Longrightarrow>
   (v = NaN \<and> n = d) \<or> (v = Num 0 \<and> n = d) \<or> (v = Num n \<and> n \<noteq> 0)"
  by (auto simp: orDefault_def split: jsnum.splits if_splits)

lemma listLinks_positive:
  assumes p: "orDefault (parseInt pageQ) 1 = Num page"
    and l: "orDefault (parseInt limitQ) 10 = Num limit"
    and pos: "0 < page" "0 < limit"
    and rng: "(page - 1) * limit < 2 ^ 31" "limit < 2 ^ 31"
  shows "listLinks s pageQ limitQ =
     Some (Json 200 (LinksJson
        (map (\<lambda>x. (x, countClicks s (idLink x)))
           (take (nat limit) (drop (nat ((page - 1) * limit)) (byCreatedDesc (links s)))))
        \<lparr>page_p = page, limit_p = limit, total_p = int (length (links s)),
         pages_p = ceilDiv (int (length (links s))) limit\<rparr>))"
proof -
  from pos have sk: "0 \<le> (page - 1) * limit" by simp
  have a: "int32 ((page - 1) * limit)"
    unfolding int32_def using sk rng(1) by linarith
  have b: "int32 limit"
    unfolding int32_def using pos(2) rng(2) by linarith
  have c: "\<not> (page - 1) * limit < 0" using sk by linarith
  have d: "0 \<le> limit" using pos(2) by simp
  show ?thesis
    by (simp only: listLinks_def p l findManyLinks_def Let_def a b c d jsnum.case
        prod.case call.case if_True if_False not_True_eq_False not_False_eq_True simp_thms)
qed

text \<open>
  C8, as amended. An absent parameter parses to \<open>NaN\<close>. When \<open>page\<close> and \<open>limit\<close>,
  after the defaults, are positive and \<open>skip\<close> and \<open>limit\<close> are in the 32-bit range,
  the handler answers 200 with the number of all links and with the rows that follow the
  first \<open>(page - 1) * limit\<close> of the links ordered by \<open>createdAt\<close> descending, at most
  \<open>limit\<close> of them, in that order; the ordered list holds every link once. \<open>page\<close> is 1
  and \<open>limit\<close> is 10 when the parameter is absent, not a number or zero, and a positive
  number is used as it is.
\<close>

theorem listLinks_ordered_total_defaults:
  assumes "orDefault (parseInt pageQ) 1 = Num page"
    and "orDefault (parseInt limitQ) 10 = Num limit"
    and "0 < page" and "0 < limit"
    and "(page - 1) * limit < 2 ^ 31" and "limit < 2 ^ 31"
  shows "(\<exists>rows. listLinks s pageQ limitQ =
            Some (Json 200 (LinksJson rows
              \<lparr>page_p = page, limit_p = limit, total_p = int (length (links s)),
               pages_p = ceilDiv (int (length (links s))) limit\<rparr>)) \<and>
            map fst rows =
              take (nat limit) (drop (nat ((page - 1) * limit)) (byCreatedDesc (links s))) \<and>
            sorted_wrt (\<lambda>a b. createdAt (fst b) \<le> createdAt (fst a)) rows) \<and>
         sorted_wrt (\<lambda>a b. createdAt b \<le> createdAt a) (byCreatedDesc (links s)) \<and>
         mset (byCreatedDesc (links s)) = mset (links s) \<and>
         parseInt None = NaN \<and>
         (parseInt pageQ = NaN \<or> parseInt pageQ = Num 0 \<longrightarrow> page = 1) \<and>
         (parseInt limitQ = NaN \<or> parseInt limitQ = Num 0 \<longrightarrow> limit = 10) \<and>
         (\<forall>n. parseInt pageQ = Num n \<and> 0 < n \<longrightarrow> page = n) \<and>
         (\<forall>n. parseInt limitQ = Num n \<and> 0 < n \<longrightarrow> limit = n)"
proof -
  let ?ls = "take (nat limit) (drop (nat ((page - 1) * limit)) (byCreatedDesc (links s)))"
  let ?rows = "map (\<lambda>x. (x, countClicks s (idLink x))) ?ls"
  have srt: "sorted_wrt (\<lambda>a b. createdAt b \<le> createdAt a) ?ls"
    by (intro sorted_wrt_take sorted_wrt_drop byCreatedDesc_sorted)
  have r: "listLinks s pageQ limitQ =
     Some (Json 200 (LinksJson ?rows
        \<lparr>page_p = page, limit_p = limit, total_p = int (length (links s)),
         pages_p = ceilDiv (int (length (links s))) limit\<rparr>))"
    using assms by (rule listLinks_positive)
  have m: "map fst ?rows = ?ls" by (simp add: comp_def)
  have s2: "sorted_wrt (\<lambda>a b. createdAt (fst b) \<le> createdAt (fst a)) ?rows"
    using srt by (simp add: sorted_wrt_map)
  have ex: "\<exists>rows. listLinks s pageQ limitQ =
            Some (Json 200 (LinksJson rows
              \<lparr>page_p = page, limit_p = limit, total_p = int (length (links s)),
               pages_p = ceilDiv (int (length (links s))) limit\<rparr>)) \<and>
            map fst rows = ?ls \<and>
            sorted_wrt (\<lambda>a b. createdAt (fst b) \<le> createdAt (fst a)) rows"
    using r m s2 by blast
  have pn: "parseInt None = NaN" by (simp add: parseInt_def)
  have d1: "parseInt pageQ = NaN \<or> parseInt pageQ = Num 0 \<longrightarrow> page = 1"
    using assms(1) by (auto simp: orDefault_def)
  have d2: "parseInt limitQ = NaN \<or> parseInt limitQ = Num 0 \<longrightarrow> limit = 10"
    using assms(2) by (auto simp: orDefault_def)
  have g1: "\<forall>n. parseInt pageQ = Num n \<and> 0 < n \<longrightarrow> page = n"
    using assms(1) by (auto simp: orDefault_def)
  have g2: "\<forall>n. parseInt limitQ = Num n \<and> 0 < n \<longrightarrow> limit = n"
    using assms(2) by (auto simp: orDefault_def)
  show ?thesis
    using ex byCreatedDesc_sorted [of "links s"] byCreatedDesc_mset [of "links s"]
      pn d1 d2 g1 g2
    by (intro conjI)
qed

theorem listLinks_ordered_total_defaults_witness:
  "parseInt None = NaN \<and> parseInt (Some ''0'') = Num 0 \<and>
   orDefault (parseInt None) 1 = Num 1 \<and> orDefault (parseInt (Some ''0'')) 10 = Num 10 \<and>
   (\<exists>rows. listLinks store1 None (Some ''0'') =
      Some (Json 200 (LinksJson rows
        \<lparr>page_p = 1, limit_p = 10, total_p = 2, pages_p = 1\<rparr>)) \<and>
      map fst rows = [link2, link1]) \<and>
   listLinks store1 None (Some ''0'') =
     Some (Json 200 (LinksJson [(link2, 0), (link1, 0)]
       \<lparr>page_p = 1, limit_p = 10, total_p = 2, pages_p = 1\<rparr>)) \<and>
   createdAt link1 < createdAt link2 \<and>
   parseInt (Some ''2'') = Num 2 \<and> parseInt (Some ''1'') = Num 1 \<and>
   (\<exists>rows. listLinks store1 (Some ''2'') (Some ''1'') =
      Some (Json 200 (LinksJson rows
        \<lparr>page_p = 2, limit_p = 1, total_p = 2, pages_p = 2\<rparr>)) \<and>
      map fst rows = [link1])"
proof -
  have p0: "parseInt (Some ''0'') = Num 0" by (simp add: parseDefs)
  have p1: "parseInt (Some ''1'') = Num 1" by (simp add: parseDefs)
  have p2: "parseInt (Some ''2'') = Num 2" by (simp add: parseDefs)
  have pn: "parseInt None = NaN" by (simp add: parseInt_def)
  have o1: "orDefault (parseInt None) 1 = Num 1" by (simp add: pn orDefault_def)
  have o2: "orDefault (parseInt (Some ''0'')) 10 = Num 10" by (simp add: p0 orDefault_def)
  have o3: "orDefault (parseInt (Some ''2'')) 1 = Num 2" by (simp add: p2 orDefault_def)
  have o4: "orDefault (parseInt (Some ''1'')) 10 = Num 1" by (simp add: p1 orDefault_def)
  have b: "byCreatedDesc (links store1) = [link2, link1]"
    by (simp add: byCreatedDesc_def store1_def link1_def link2_def)
  have c: "countClicks store1 i = 0" for i by (simp add: countClicks_def store1_def)
  have len: "length (links store1) = 2" by (simp add: store1_def)
  have lt: "createdAt link1 < createdAt link2" by (simp add: link1_def link2_def)
  have "\<exists>rows. listLinks store1 None (Some ''0'') =
            Some (Json 200 (LinksJson rows
              \<lparr>page_p = 1, limit_p = 10, total_p = int (length (links store1)),
               pages_p = ceilDiv (int (length (links store1))) 10\<rparr>)) \<and>
            map fst rows =
              take (nat 10) (drop (nat ((1 - 1) * 10)) (byCreatedDesc (links store1))) \<and>
            sorted_wrt (\<lambda>a b. createdAt (fst b) \<le> createdAt (fst a)) rows"
    using listLinks_ordered_total_defaults [OF o1 o2, of store1] by simp
  then have e1: "\<exists>rows. listLinks store1 None (Some ''0'') =
      Some (Json 200 (LinksJson rows
        \<lparr>page_p = 1, limit_p = 10, total_p = 2, pages_p = 1\<rparr>)) \<and>
      map fst rows = [link2, link1]"
    by (auto simp: b len ceilDiv_def)
  have "\<exists>rows. listLinks store1 (Some ''2'') (Some ''1'') =
            Some (Json 200 (LinksJson rows
              \<lparr>page_p = 2, limit_p = 1, total_p = int (length (links store1)),
               pages_p = ceilDiv (int (length (links store1))) 1\<rparr>)) \<and>
            map fst rows =
              take (nat 1) (drop (nat ((2 - 1) * 1)) (byCreatedDesc (links store1))) \<and>
            sorted_wrt (\<lambda>a b. createdAt (fst b) \<le> createdAt (fst a)) rows"
    using listLinks_ordered_total_defaults [OF o3 o4, of store1] by simp
  then have e2: "\<exists>rows. listLinks store1 (Some ''2'') (Some ''1'') =
      Some (Json 200 (LinksJson rows
        \<lparr>page_p = 2, limit_p = 1, total_p = 2, pages_p = 2\<rparr>)) \<and>
      map fst rows = [link1]"
    by (auto simp: b len ceilDiv_def)
  have a1: "listLinks store1 None (Some ''0'') =
     Some (Json 200 (LinksJson [(link2, 0), (link1, 0)]
       \<lparr>page_p = 1, limit_p = 10, total_p = 2, pages_p = 1\<rparr>))"
    by (simp add: listLinks_def o1 o2 findManyLinks_def int32_def b c len ceilDiv_def)
  show ?thesis using pn p0 p1 p2 o1 o2 e1 e2 a1 lt by (intro conjI)
qed

text \<open>
  C8 as stated fails for negative parameters: \<open>page=-3&limit=-5\<close> is answered with
  \<open>page = -3\<close> and \<open>limit = -5\<close>, not with the defaults.
\<close>

theorem listLinks_negative_counterexample:
  "parseInt (Some ''-3'') = Num (- 3) \<and> parseInt (Some ''-5'') = Num (- 5) \<and>
   listLinks emptyStore (Some ''-3'') (Some ''-5'') =
     Some (Json 200 (LinksJson [] \<lparr>page_p = - 3, limit_p = - 5, total_p = 0, pages_p = 0\<rparr>))"
  by (simp add: listLinks_def emptyStore_def findManyLinks_def int32_def byCreatedAsc_def
      ceilDiv_def orDefault_def parseDefs)

end
